theory Spec2Isabelle
  imports Main
begin

section \<open>Python values, exceptions and strings\<close>

text \<open>
  The module \<^verbatim>\<open>pyjoomatic/admin.py\<close> is Python 3.  Strings are modelled as
  \<^typ>\<open>string\<close>, read as the UTF-8 bytes of the Python text; every input used below is
  ASCII, where bytes and code points coincide.  A raised exception is the left summand
  of a result.
\<close>

datatype exn =
    NoSuchElementException
  | TimeoutException
  | WebDriverException string
  | AdminError string
  | ValueError string
  | AssertionError string
  | TypeError
  | AttributeError string
  | KeyError string
  | IndexError
  | RecursionError

text \<open>The data values that reach \<^verbatim>\<open>update_url_params\<close>: \<^verbatim>\<open>None\<close>, \<^verbatim>\<open>str\<close>,
  \<^verbatim>\<open>int\<close> and \<^verbatim>\<open>list\<close>.\<close>

datatype pyval = PNone | PStr string | PInt int | PList "pyval list"

abbreviation sq :: char where "sq \<equiv> CHR 0x27"
abbreviation dq :: char where "dq \<equiv> CHR 0x22"
abbreviation bsl :: char where "bsl \<equiv> CHR 0x5C"

definition nibble :: "bool \<Rightarrow> bool \<Rightarrow> bool \<Rightarrow> bool \<Rightarrow> nat" where
  "nibble b0 b1 b2 b3 =
     (if b0 then 1 else 0) + (if b1 then 2 else 0) + (if b2 then 4 else 0) + (if b3 then 8 else 0)"

definition hex_upper :: "char \<Rightarrow> string" where
  "hex_upper c = (case c of Char b0 b1 b2 b3 b4 b5 b6 b7 \<Rightarrow>
     [''0123456789ABCDEF'' ! nibble b4 b5 b6 b7, ''0123456789ABCDEF'' ! nibble b0 b1 b2 b3])"

definition hex_lower :: "char \<Rightarrow> string" where
  "hex_lower c = (case c of Char b0 b1 b2 b3 b4 b5 b6 b7 \<Rightarrow>
     [''0123456789abcdef'' ! nibble b4 b5 b6 b7, ''0123456789abcdef'' ! nibble b0 b1 b2 b3])"

definition is_hex :: "char \<Rightarrow> bool" where
  "is_hex c = (c \<in> set ''0123456789abcdefABCDEF'')"

text \<open>The four bits of a hexadecimal digit, least significant first.\<close>

definition hex_bits :: "char \<Rightarrow> bool \<times> bool \<times> bool \<times> bool" where
  "hex_bits c =
     (if c = CHR ''0'' then (False, False, False, False)
      else if c = CHR ''1'' then (True, False, False, False)
      else if c = CHR ''2'' then (False, True, False, False)
      else if c = CHR ''3'' then (True, True, False, False)
      else if c = CHR ''4'' then (False, False, True, False)
      else if c = CHR ''5'' then (True, False, True, False)
      else if c = CHR ''6'' then (False, True, True, False)
      else if c = CHR ''7'' then (True, True, True, False)
      else if c = CHR ''8'' then (False, False, False, True)
      else if c = CHR ''9'' then (True, False, False, True)
      else if c = CHR ''a'' \<or> c = CHR ''A'' then (False, True, False, True)
      else if c = CHR ''b'' \<or> c = CHR ''B'' then (True, True, False, True)
      else if c = CHR ''c'' \<or> c = CHR ''C'' then (False, False, True, True)
      else if c = CHR ''d'' \<or> c = CHR ''D'' then (True, False, True, True)
      else if c = CHR ''e'' \<or> c = CHR ''E'' then (False, True, True, True)
      else (True, True, True, True))"

definition hex_byte :: "char \<Rightarrow> char \<Rightarrow> char" where
  "hex_byte hi lo = (case (hex_bits lo, hex_bits hi) of
     ((l0, l1, l2, l3), (h0, h1, h2, h3)) \<Rightarrow> Char l0 l1 l2 l3 h0 h1 h2 h3)"

definition is_upper :: "char \<Rightarrow> bool" where
  "is_upper c = (c \<in> set ''ABCDEFGHIJKLMNOPQRSTUVWXYZ'')"

definition is_alpha :: "char \<Rightarrow> bool" where
  "is_alpha c = (is_upper c \<or> c \<in> set ''abcdefghijklmnopqrstuvwxyz'')"

text \<open>\<^verbatim>\<open>str.lower()\<close> on ASCII: an upper-case letter gets bit 5 set.\<close>

definition lower_char :: "char \<Rightarrow> char" where
  "lower_char c = (if is_upper c
     then (case c of Char b0 b1 b2 b3 b4 b5 b6 b7 \<Rightarrow> Char b0 b1 b2 b3 b4 True b6 b7)
     else c)"

definition lower :: "string \<Rightarrow> string" where
  "lower s = map lower_char s"

text \<open>\<^verbatim>\<open>s.partition(c)\<close>, and \<^verbatim>\<open>s.split(c, 1)\<close> when \<^verbatim>\<open>c in s\<close>: the text before
  the first \<open>c\<close>, and the text after it when there is one.\<close>

fun partition_at :: "char \<Rightarrow> string \<Rightarrow> string \<times> string option" where
  "partition_at c [] = ([], None)"
| "partition_at c (x # xs) =
     (if x = c then ([], Some xs)
      else (case partition_at c xs of (a, r) \<Rightarrow> (x # a, r)))"

text \<open>\<^verbatim>\<open>s.split(sep)\<close> for a one-character separator, and \<^verbatim>\<open>re.split\<close> on a
  class of single characters: the pieces between the separators, empty ones kept.\<close>

fun split_on :: "(char \<Rightarrow> bool) \<Rightarrow> string \<Rightarrow> string list" where
  "split_on P [] = [[]]"
| "split_on P (x # xs) =
     (if P x then [] # split_on P xs
      else (case split_on P xs of
              [] \<Rightarrow> [[x]]
            | h # t \<Rightarrow> (x # h) # t))"

definition replace_char :: "char \<Rightarrow> char \<Rightarrow> string \<Rightarrow> string" where
  "replace_char a b s = map (\<lambda>c. if c = a then b else c) s"

text \<open>\<^verbatim>\<open>sep.join(xs)\<close>.\<close>

fun join :: "string \<Rightarrow> string list \<Rightarrow> string" where
  "join sep [] = []"
| "join sep [x] = x"
| "join sep (x # y # ys) = x @ sep @ join sep (y # ys)"

text \<open>\<^verbatim>\<open>a in s\<close> for strings: \<open>a\<close> occurs in \<open>s\<close> as a contiguous piece.\<close>

fun starts_with :: "string \<Rightarrow> string \<Rightarrow> bool" where
  "starts_with [] s = True"
| "starts_with (a # as) [] = False"
| "starts_with (a # as) (c # cs) = (a = c \<and> starts_with as cs)"

fun contains_str :: "string \<Rightarrow> string \<Rightarrow> bool" where
  "contains_str a [] = (a = [])"
| "contains_str a (c # cs) = (starts_with a (c # cs) \<or> contains_str a cs)"

text \<open>\<^verbatim>\<open>str(n)\<close> for an \<^verbatim>\<open>int\<close>: decimal digits, a minus sign when negative.\<close>

fun str_of_nat :: "nat \<Rightarrow> string" where
  "str_of_nat n =
     (if n < 10 then [''0123456789'' ! n]
      else str_of_nat (n div 10) @ [''0123456789'' ! (n mod 10)])"

declare str_of_nat.simps [simp del]

definition str_of_int :: "int \<Rightarrow> string" where
  "str_of_int i = (if i < 0 then CHR ''-'' # str_of_nat (nat (- i)) else str_of_nat (nat i))"

text \<open>\<^verbatim>\<open>repr(s)\<close> for a \<^verbatim>\<open>str\<close>: double quotes are chosen only when the text holds a
  single quote and no double quote; the backslash, the chosen quote, tab, newline and
  carriage return get a backslash escape, any other ASCII control character becomes
  \<^verbatim>\<open>\xNN\<close>.  Bytes from \<open>0x80\<close> on stand for printable non-ASCII text and are kept.\<close>

definition repr_quote :: "string \<Rightarrow> char" where
  "repr_quote s = (if sq \<in> set s \<and> dq \<notin> set s then dq else sq)"

definition is_control :: "char \<Rightarrow> bool" where
  "is_control c = (case c of Char b0 b1 b2 b3 b4 b5 b6 b7 \<Rightarrow>
     (\<not> b5 \<and> \<not> b6 \<and> \<not> b7) \<or> (b0 \<and> b1 \<and> b2 \<and> b3 \<and> b4 \<and> b5 \<and> b6 \<and> \<not> b7))"

definition repr_char :: "char \<Rightarrow> char \<Rightarrow> string" where
  "repr_char q c =
     (if c = q \<or> c = bsl then [bsl, c]
      else if c = CHR 0x09 then [bsl, CHR ''t'']
      else if c = CHR 0x0A then [bsl, CHR ''n'']
      else if c = CHR 0x0D then [bsl, CHR ''r'']
      else if is_control c then [bsl, CHR ''x''] @ hex_lower c
      else [c])"

definition repr_str :: "string \<Rightarrow> string" where
  "repr_str s = (let q = repr_quote s in [q] @ concat (map (repr_char q) s) @ [q])"

fun py_repr :: "pyval \<Rightarrow> string" where
  "py_repr PNone = ''None''"
| "py_repr (PStr s) = repr_str s"
| "py_repr (PInt i) = str_of_int i"
| "py_repr (PList xs) = ''['' @ join '', '' (map py_repr xs) @ '']''"

text \<open>\<^verbatim>\<open>str(v)\<close>: the text itself for a \<^verbatim>\<open>str\<close>, the \<^verbatim>\<open>repr\<close> otherwise.\<close>

fun py_str :: "pyval \<Rightarrow> string" where
  "py_str (PStr s) = s"
| "py_str v = py_repr v"

section \<open>The standard library's \<^verbatim>\<open>urllib.parse\<close>\<close>

text \<open>
  \<^verbatim>\<open>update_url_params\<close> and \<^verbatim>\<open>add_article\<close> call \<^verbatim>\<open>urlparse\<close>,
  \<^verbatim>\<open>parse_qs\<close>, \<^verbatim>\<open>urlencode\<close> and \<^verbatim>\<open>urlunparse\<close> of CPython's
  \<^verbatim>\<open>urllib.parse\<close>.  The definitions follow the library's source (CPython 3.11) for
  \<^verbatim>\<open>str\<close> arguments and default keyword arguments.  Left out: the validation of a
  bracketed host (\<^verbatim>\<open>_check_bracketed_host\<close>) and the NFKC check of a non-ASCII
  network location (\<^verbatim>\<open>_checknetloc\<close>); neither is reached by a URL without brackets
  in ASCII.
\<close>

record parse_result =
  scheme :: string
  netloc :: string
  path :: string
  params :: string
  query :: string
  fragment :: string

definition scheme_chars :: string where
  "scheme_chars = ''abcdefghijklmnopqrstuvwxyzABCDEFGHIJKLMNOPQRSTUVWXYZ0123456789+-.''"

definition uses_params :: "string list" where
  "uses_params = ['''', ''ftp'', ''hdl'', ''prospero'', ''http'', ''imap'', ''https'', ''shttp'',
     ''rtsp'', ''rtsps'', ''rtspu'', ''sip'', ''sips'', ''mms'', ''sftp'', ''tel'']"

definition uses_netloc :: "string list" where
  "uses_netloc = ['''', ''ftp'', ''http'', ''gopher'', ''nntp'', ''telnet'', ''imap'', ''wais'',
     ''file'', ''mms'', ''https'', ''shttp'', ''snews'', ''prospero'', ''rtsp'', ''rtsps'',
     ''rtspu'', ''rsync'', ''svn'', ''svn+ssh'', ''sftp'', ''nfs'', ''git'', ''git+ssh'',
     ''ws'', ''wss'']"

text \<open>\<^verbatim>\<open>url.lstrip(_WHATWG_C0_CONTROL_OR_SPACE)\<close>: leading characters up to the
  space (code \<open>0x20\<close>) are dropped.\<close>

definition c0_or_space :: "char \<Rightarrow> bool" where
  "c0_or_space c = (case c of Char b0 b1 b2 b3 b4 b5 b6 b7 \<Rightarrow>
     (\<not> b5 \<and> \<not> b6 \<and> \<not> b7) \<or> c = CHR 0x20)"

definition unsafe_url_byte :: "char \<Rightarrow> bool" where
  "unsafe_url_byte c = (c = CHR 0x09 \<or> c = CHR 0x0D \<or> c = CHR 0x0A)"

text \<open>The scheme: the text before the first colon, when it is not empty, starts with
  a letter and holds scheme characters only.\<close>

definition split_scheme :: "string \<Rightarrow> string \<times> string" where
  "split_scheme url =
     (case partition_at CHR '':'' url of
        (pre, Some rest) \<Rightarrow>
          (if pre \<noteq> [] \<and> is_alpha (hd pre) \<and> list_all (\<lambda>c. c \<in> set scheme_chars) pre
           then (lower pre, rest) else ([], url))
      | (pre, None) \<Rightarrow> ([], url))"

definition splitnetloc :: "string \<Rightarrow> string \<times> string" where
  "splitnetloc url =
     (let body = drop 2 url; stop = (\<lambda>c. c \<in> set ''/?#'')
      in (takeWhile (\<lambda>c. \<not> stop c) body, dropWhile (\<lambda>c. \<not> stop c) body))"

definition urlsplit :: "string \<Rightarrow> exn + (string \<times> string \<times> string \<times> string \<times> string)" where
  "urlsplit url0 =
     (let url1 = filter (\<lambda>c. \<not> unsafe_url_byte c) (dropWhile c0_or_space url0);
          (sch, url2) = split_scheme url1;
          (nl, url3) = (if take 2 url2 = ''//'' then splitnetloc url2 else ([], url2))
      in if take 2 url2 = ''//'' \<and>
            ((CHR ''['' \<in> set nl \<and> CHR '']'' \<notin> set nl) \<or> (CHR '']'' \<in> set nl \<and> CHR ''['' \<notin> set nl))
         then Inl (ValueError ''Invalid IPv6 URL'')
         else
           (let (url4, frag) = (case partition_at CHR ''#'' url3 of
                                  (a, Some b) \<Rightarrow> (a, b) | (a, None) \<Rightarrow> (a, []));
                (url5, qry) = (case partition_at CHR ''?'' url4 of
                                  (a, Some b) \<Rightarrow> (a, b) | (a, None) \<Rightarrow> (a, []))
            in Inr (sch, nl, url5, qry, frag)))"

text \<open>\<^verbatim>\<open>_splitparams\<close>: the parameters start at the first semicolon of the last path
  segment.\<close>

definition splitparams :: "string \<Rightarrow> string \<times> string" where
  "splitparams url =
     (if CHR ''/'' \<in> set url
      then (let seg = rev (takeWhile (\<lambda>c. c \<noteq> CHR ''/'') (rev url));
                front = take (length url - length seg) url
            in case partition_at CHR '';'' seg of
                 (a, Some b) \<Rightarrow> (front @ a, b)
               | (a, None) \<Rightarrow> (url, []))
      else (case partition_at CHR '';'' url of
              (a, Some b) \<Rightarrow> (a, b)
            | (a, None) \<Rightarrow> (take (length url - 1) url, url)))"

definition urlparse :: "string \<Rightarrow> exn + parse_result" where
  "urlparse url =
     (case urlsplit url of
        Inl e \<Rightarrow> Inl e
      | Inr (sch, nl, p, qry, frag) \<Rightarrow>
          (let (p', prm) = (if sch \<in> set uses_params \<and> CHR '';'' \<in> set p
                            then splitparams p else (p, []))
           in Inr \<lparr>scheme = sch, netloc = nl, path = p', params = prm,
                    query = qry, fragment = frag\<rparr>))"

definition urlunsplit :: "string \<Rightarrow> string \<Rightarrow> string \<Rightarrow> string \<Rightarrow> string \<Rightarrow> string" where
  "urlunsplit sch nl url qry frag =
     (let url1 = (if nl \<noteq> [] \<or> (sch \<noteq> [] \<and> sch \<in> set uses_netloc) \<or> take 2 url = ''//''
                  then ''//'' @ nl @ (if url \<noteq> [] \<and> take 1 url \<noteq> ''/'' then ''/'' @ url else url)
                  else url);
          url2 = (if sch \<noteq> [] then sch @ '':'' @ url1 else url1);
          url3 = (if qry \<noteq> [] then url2 @ ''?'' @ qry else url2)
      in if frag \<noteq> [] then url3 @ ''#'' @ frag else url3)"

definition urlunparse :: "parse_result \<Rightarrow> string" where
  "urlunparse r =
     urlunsplit (scheme r) (netloc r)
       (if params r \<noteq> [] then path r @ '';'' @ params r else path r)
       (query r) (fragment r)"

text \<open>\<^verbatim>\<open>unquote\<close>: a percent sign followed by two hexadecimal digits is the byte they
  name; any other percent sign stays.  The bytes are then read as UTF-8; escapes that do
  not form valid UTF-8 (which CPython replaces by U+FFFD) are outside the model, which
  keeps the bytes.\<close>

fun unquote :: "string \<Rightarrow> string" where
  "unquote (p # a # b # rest) =
     (if p = CHR ''%'' \<and> is_hex a \<and> is_hex b then hex_byte a b # unquote rest
      else p # unquote (a # b # rest))"
| "unquote s = s"

definition unquote_plus :: "string \<Rightarrow> string" where
  "unquote_plus s = unquote (replace_char CHR ''+'' CHR '' '' s)"

text \<open>\<^verbatim>\<open>parse_qsl\<close> with \<^verbatim>\<open>keep_blank_values=False\<close> and
  \<^verbatim>\<open>strict_parsing=False\<close>: a field with an empty value or without \<^verbatim>\<open>=\<close> is
  dropped.\<close>

definition parse_qsl :: "string \<Rightarrow> (string \<times> string) list" where
  "parse_qsl qs =
     (if qs = [] then []
      else concat (map (\<lambda>name_value.
             if name_value = [] then []
             else (case partition_at CHR ''='' name_value of
                     (name, has_eq) \<Rightarrow>
                       (let v = (case has_eq of None \<Rightarrow> [] | Some v \<Rightarrow> v)
                        in if v \<noteq> [] then [(unquote_plus name, unquote_plus v)] else [])))
           (split_on (\<lambda>c. c = CHR ''&'') qs)))"

text \<open>A \<^verbatim>\<open>dict\<close> keeps its keys in insertion order: an association list with
  distinct keys.  \<^verbatim>\<open>d[k] = v\<close> overwrites in place or appends.\<close>

fun dict_set :: "'k \<Rightarrow> 'v \<Rightarrow> ('k \<times> 'v) list \<Rightarrow> ('k \<times> 'v) list" where
  "dict_set k v [] = [(k, v)]"
| "dict_set k v ((k', v') # d) = (if k' = k then (k, v) # d else (k', v') # dict_set k v d)"

text \<open>\<^verbatim>\<open>d.update(other)\<close>.\<close>

definition dict_update :: "('k \<times> 'v) list \<Rightarrow> ('k \<times> 'v) list \<Rightarrow> ('k \<times> 'v) list" where
  "dict_update d other = foldl (\<lambda>acc (k, v). dict_set k v acc) d other"

text \<open>\<^verbatim>\<open>parse_qs\<close>: every name is mapped to the list of its values.\<close>

definition parse_qs :: "string \<Rightarrow> (string \<times> string list) list" where
  "parse_qs qs =
     foldl (\<lambda>acc (name, v).
              (case map_of acc name of
                 Some vs \<Rightarrow> dict_set name (vs @ [v]) acc
               | None \<Rightarrow> dict_set name [v] acc))
       [] (parse_qsl qs)"

definition always_safe :: "char \<Rightarrow> bool" where
  "always_safe c =
     (c \<in> set ''ABCDEFGHIJKLMNOPQRSTUVWXYZabcdefghijklmnopqrstuvwxyz0123456789_.-~'')"

definition quote :: "string \<Rightarrow> string \<Rightarrow> string" where
  "quote s safe =
     concat (map (\<lambda>c. if always_safe c \<or> c \<in> set safe then [c] else CHR ''%'' # hex_upper c) s)"

definition quote_plus :: "string \<Rightarrow> string" where
  "quote_plus s =
     (if CHR '' '' \<notin> set s then quote s []
      else replace_char CHR '' '' CHR ''+'' (quote s '' ''))"

text \<open>\<^verbatim>\<open>urlencode(query)\<close> with \<^verbatim>\<open>doseq=False\<close>: key and value go through
  \<^verbatim>\<open>str\<close> and \<^verbatim>\<open>quote_plus\<close>, whatever their type.\<close>

definition urlencode :: "(string \<times> pyval) list \<Rightarrow> string" where
  "urlencode q = join ''&'' (map (\<lambda>(k, v). quote_plus k @ ''='' @ quote_plus (py_str v)) q)"

section \<open>\<^verbatim>\<open>update_url_params\<close>\<close>

text \<open>
  \<^verbatim>\<open>
  def update_url_params(url, **kwargs):
      parsed_url = urlparse(url)
      params = parse_qs(parsed_url.query)
      params.update(kwargs)
      elements = list(parsed_url)
      elements[4] = urlencode(params)
      return urlunparse(elements)
  \<close>
  \<^verbatim>\<open>parse_qs\<close> gives every name a \<^emph>\<open>list\<close> of texts; the keyword arguments
  are stored as they come.
\<close>

definition update_url_params :: "string \<Rightarrow> (string \<times> pyval) list \<Rightarrow> exn + string" where
  "update_url_params url kwargs =
     (case urlparse url of
        Inl e \<Rightarrow> Inl e
      | Inr parsed_url \<Rightarrow>
          (let params0 = map (\<lambda>(k, vs). (k, PList (map PStr vs))) (parse_qs (query parsed_url));
               params1 = dict_update params0 kwargs;
               elements = parsed_url\<lparr>query := urlencode params1\<rparr>
           in Inr (urlunparse elements)))"

section \<open>The browser behind the driver\<close>

text \<open>
  The browser-driving library (selenium) and the page it drives are not part of the
  repository: they are a parameter, the environment \<open>env\<close>.  An element handle is
  opaque.  Reading the page (a find, an attribute, visibility) leaves it as it is and may
  fail; an interaction (a click, typing, a wait) may change the page and is recorded in
  the trace, also when it fails.
\<close>

datatype elt = WebDriver | WebElement nat

datatype locator = ByTagName | ByName | ByCssSelector | ByXPath | ById

text \<open>What a form filler may be handed as the value of a field: \<^verbatim>\<open>None\<close>, a text, or
  (when \<^verbatim>\<open>fill_field\<close> re-enters itself) an element wrapper.\<close>

datatype fval = VNone | VStr string | VElt elt

datatype event =
    Click elt
  | Clear elt
  | SendKeys elt fval
  | WaitFrame string
  | WaitPresence string
  | WaitAbsence string
  | WaitDisplayed elt
  | Sleep nat
  | ParentFrame

record 'p env =
  find_element :: "'p \<Rightarrow> elt \<Rightarrow> locator \<Rightarrow> string \<Rightarrow> exn + elt"
  find_elements :: "'p \<Rightarrow> elt \<Rightarrow> locator \<Rightarrow> string \<Rightarrow> exn + elt list"
  get_attribute :: "'p \<Rightarrow> elt \<Rightarrow> fval \<Rightarrow> exn + string option"
  is_displayed :: "'p \<Rightarrow> elt \<Rightarrow> exn + bool"
  tag_name :: "'p \<Rightarrow> elt \<Rightarrow> exn + string"
  text_of :: "'p \<Rightarrow> elt \<Rightarrow> exn + string"
  getattr_elt :: "'p \<Rightarrow> elt \<Rightarrow> string \<Rightarrow> exn + string"
  current_url :: "'p \<Rightarrow> exn + string"
  perform :: "'p \<Rightarrow> event \<Rightarrow> (exn + unit) \<times> 'p"
  until_presence :: "'p \<Rightarrow> string \<Rightarrow> (exn + elt) \<times> 'p"
  abspath :: "string \<Rightarrow> string"
  path_exists :: "string \<Rightarrow> bool"
  path_isfile :: "string \<Rightarrow> bool"
  wrapper_str :: "elt \<Rightarrow> string"

record 'p world =
  page :: 'p
  trace :: "event list"

type_synonym ('p, 'a) act = "'p world \<Rightarrow> (exn + 'a) \<times> 'p world"

definition ret :: "'a \<Rightarrow> ('p, 'a) act" where
  "ret x w = (Inr x, w)"

definition raise :: "exn \<Rightarrow> ('p, 'a) act" where
  "raise e w = (Inl e, w)"

text \<open>Sequencing: an exception ends the run, with the world as it was when raised.\<close>

definition seq :: "('p, 'a) act \<Rightarrow> ('a \<Rightarrow> ('p, 'b) act) \<Rightarrow> ('p, 'b) act" where
  "seq m f w = (case m w of (Inl e, w') \<Rightarrow> (Inl e, w') | (Inr x, w') \<Rightarrow> f x w')"

definition observe :: "('p \<Rightarrow> exn + 'a) \<Rightarrow> ('p, 'a) act" where
  "observe f w = (f (page w), w)"

definition interact :: "'p env \<Rightarrow> event \<Rightarrow> ('p, unit) act" where
  "interact env ev w =
     (case perform env (page w) ev of
        (r, p') \<Rightarrow> (r, \<lparr>page = p', trace = trace w @ [ev]\<rparr>))"

text \<open>\<^verbatim>\<open>try: ... except NoSuchElementException: ...\<close>\<close>

definition except_no_such_element :: "('p, 'a) act \<Rightarrow> ('p, 'a) act \<Rightarrow> ('p, 'a) act" where
  "except_no_such_element body handler w =
     (case body w of
        (Inl NoSuchElementException, w') \<Rightarrow> handler w'
      | r \<Rightarrow> r)"

definition in_sq :: "string \<Rightarrow> string" where
  "in_sq s = [sq] @ s @ [sq]"

text \<open>\<^verbatim>\<open>str(value)\<close> and the truth value of a form value.  An \<^verbatim>\<open>EltWrapper\<close>
  defines neither \<^verbatim>\<open>__str__\<close> nor \<^verbatim>\<open>__bool__\<close> nor \<^verbatim>\<open>__len__\<close> (and
  \<^verbatim>\<open>__getattr__\<close> is not asked for them): it prints as the default object text and
  is true.\<close>

definition fval_str :: "'p env \<Rightarrow> fval \<Rightarrow> string" where
  "fval_str env v = (case v of VNone \<Rightarrow> ''None'' | VStr s \<Rightarrow> s | VElt e \<Rightarrow> wrapper_str env e)"

definition fval_truthy :: "fval \<Rightarrow> bool" where
  "fval_truthy v = (case v of VNone \<Rightarrow> False | VStr s \<Rightarrow> s \<noteq> [] | VElt e \<Rightarrow> True)"

definition fval_of_attr :: "string option \<Rightarrow> fval" where
  "fval_of_attr a = (case a of None \<Rightarrow> VNone | Some s \<Rightarrow> VStr s)"

section \<open>The element wrapper and its default for a missing element\<close>

text \<open>What a lookup hands back: one wrapped element, a list of wrapped elements, or the
  caller's default.\<close>

datatype 'd found = Wrapper elt | Wrappers "elt list" | Default 'd

text \<open>
  \<^verbatim>\<open>
  marker = object()

  def no_such_element_default(fn):
      def decorated(self, *args, **kwargs):
          default = kwargs.pop('default', marker)
          try:
              return fn(self, *args, **kwargs)
          except NoSuchElementException:
              if default is not marker:
                  return default
              else:
                  raise
      return decorated
  \<close>
  The keyword \<^verbatim>\<open>default\<close> is an option: \<open>None\<close> is the marker (no default given).
\<close>

definition no_such_element_default :: "('p, 'd found) act \<Rightarrow> 'd option \<Rightarrow> ('p, 'd found) act" where
  "no_such_element_default fn dflt =
     except_no_such_element fn
       (case dflt of
          Some d \<Rightarrow> ret (Default d)
        | None \<Rightarrow> raise NoSuchElementException)"

definition find_one :: "'p env \<Rightarrow> elt \<Rightarrow> locator \<Rightarrow> string \<Rightarrow> ('p, 'd found) act" where
  "find_one env e b sel = seq (observe (\<lambda>p. find_element env p e b sel)) (\<lambda>x. ret (Wrapper x))"

definition find_all :: "'p env \<Rightarrow> elt \<Rightarrow> locator \<Rightarrow> string \<Rightarrow> ('p, 'd found) act" where
  "find_all env e b sel = seq (observe (\<lambda>p. find_elements env p e b sel)) (\<lambda>xs. ret (Wrappers xs))"

definition by_tag :: "'p env \<Rightarrow> elt \<Rightarrow> string \<Rightarrow> 'd option \<Rightarrow> ('p, 'd found) act" where
  "by_tag env e name = no_such_element_default (find_one env e ByTagName name)"

definition all_tag :: "'p env \<Rightarrow> elt \<Rightarrow> string \<Rightarrow> 'd option \<Rightarrow> ('p, 'd found) act" where
  "all_tag env e name = no_such_element_default (find_all env e ByTagName name)"

definition by_name :: "'p env \<Rightarrow> elt \<Rightarrow> string \<Rightarrow> 'd option \<Rightarrow> ('p, 'd found) act" where
  "by_name env e name = no_such_element_default (find_one env e ByName name)"

definition all_name :: "'p env \<Rightarrow> elt \<Rightarrow> string \<Rightarrow> 'd option \<Rightarrow> ('p, 'd found) act" where
  "all_name env e name = no_such_element_default (find_all env e ByName name)"

definition by_css :: "'p env \<Rightarrow> elt \<Rightarrow> string \<Rightarrow> 'd option \<Rightarrow> ('p, 'd found) act" where
  "by_css env e selector = no_such_element_default (find_one env e ByCssSelector selector)"

definition all_css :: "'p env \<Rightarrow> elt \<Rightarrow> string \<Rightarrow> 'd option \<Rightarrow> ('p, 'd found) act" where
  "all_css env e selector = no_such_element_default (find_all env e ByCssSelector selector)"

definition by_xpath :: "'p env \<Rightarrow> elt \<Rightarrow> string \<Rightarrow> 'd option \<Rightarrow> ('p, 'd found) act" where
  "by_xpath env e selector = no_such_element_default (find_one env e ByXPath selector)"

definition all_xpath :: "'p env \<Rightarrow> elt \<Rightarrow> string \<Rightarrow> 'd option \<Rightarrow> ('p, 'd found) act" where
  "all_xpath env e selector = no_such_element_default (find_all env e ByXPath selector)"

definition by_id :: "'p env \<Rightarrow> elt \<Rightarrow> string \<Rightarrow> 'd option \<Rightarrow> ('p, 'd found) act" where
  "by_id env e ident = no_such_element_default (find_one env e ById ident)"

text \<open>Calling an element's method on what a lookup handed back: a wrapper passes it on
  to its element (\<^verbatim>\<open>__getattr__\<close>); a list or a plain default has no such method.\<close>

definition as_wrapper :: "pyval found \<Rightarrow> ('p, elt) act" where
  "as_wrapper v = (case v of Wrapper e \<Rightarrow> ret e | _ \<Rightarrow> raise (AttributeError ''method of an element''))"

fun py_truthy :: "pyval \<Rightarrow> bool" where
  "py_truthy PNone = False"
| "py_truthy (PStr s) = (s \<noteq> [])"
| "py_truthy (PInt i) = (i \<noteq> 0)"
| "py_truthy (PList xs) = (xs \<noteq> [])"

definition truthy :: "pyval found \<Rightarrow> bool" where
  "truthy v = (case v of Wrapper e \<Rightarrow> True | Wrappers xs \<Rightarrow> xs \<noteq> [] | Default d \<Rightarrow> py_truthy d)"

text \<open>A call without the keyword \<^verbatim>\<open>default\<close>.\<close>

abbreviation nodefault :: "pyval option" where
  "nodefault \<equiv> None"

definition click :: "'p env \<Rightarrow> pyval found \<Rightarrow> ('p, unit) act" where
  "click env v = seq (as_wrapper v) (\<lambda>e. interact env (Click e))"

section \<open>\<^verbatim>\<open>JoomlaAdminParts\<close>: the landmarks of the admin pages\<close>

text \<open>Each accessor looks the landmark up from the browser (\<^verbatim>\<open>self.b\<close>).  Only
  \<^verbatim>\<open>jform_error\<close> passes a default, the empty list:
  \<^verbatim>\<open>return self.b.by_css(".alert-error", default=[])\<close>.\<close>

definition menu_contents :: "'p env \<Rightarrow> ('p, pyval found) act" where
  "menu_contents env =
     by_xpath env WebDriver
       (''//a[contains(@class, '' @ in_sq ''menu-article'' @ '')]/ancestor::ul/preceding-sibling::a'')
       nodefault"

definition menu_article :: "'p env \<Rightarrow> ('p, pyval found) act" where
  "menu_article env = by_css env WebDriver ''a.menu-article'' nodefault"

definition jform_action :: "'p env \<Rightarrow> string \<Rightarrow> ('p, pyval found) act" where
  "jform_action env name =
     by_xpath env WebDriver (''//button[contains(@onclick, '' @ in_sq name @ '')]'') nodefault"

definition jform_error :: "'p env \<Rightarrow> ('p, pyval found) act" where
  "jform_error env = by_css env WebDriver ''.alert-error'' (Some (PList []))"

section \<open>\<^verbatim>\<open>JoomlaFormDriver\<close>: filling the fields of a form\<close>

text \<open>
  \<^verbatim>\<open>
  def ensure_field_tab(self, field):
      if not field.is_displayed():
          try:
              tab = field.by_xpath("./ancestor::div[contains(@class, 'tab-pane')]")
              if tab:
                  tabid = tab.get_attribute('id')
                  tab_selector = self.b.by_xpath("//ul[@id='myTabTabs']//a[@href='#%s']" % tabid)
                  if tab_selector and tab_selector.is_displayed():
                      tab_selector.click()
          except NoSuchElementException:
              pass
  \<close>
\<close>

definition ensure_field_tab :: "'p env \<Rightarrow> elt \<Rightarrow> ('p, unit) act" where
  "ensure_field_tab env field =
     seq (observe (\<lambda>p. is_displayed env p field)) (\<lambda>shown.
       if \<not> shown then
         except_no_such_element
           (seq (by_xpath env field
                   (''./ancestor::div[contains(@class, '' @ in_sq ''tab-pane'' @ '')]'') nodefault) (\<lambda>tab.
              if truthy tab then
                seq (as_wrapper tab) (\<lambda>tab_elt.
                seq (observe (\<lambda>p. get_attribute env p tab_elt (VStr ''id''))) (\<lambda>tabid.
                seq (by_xpath env WebDriver
                       (''//ul[@id='' @ in_sq ''myTabTabs'' @ '']//a[@href=''
                          @ in_sq (''#'' @ fval_str env (fval_of_attr tabid)) @ '']'') nodefault) (\<lambda>tab_selector.
                  if truthy tab_selector then
                    seq (as_wrapper tab_selector) (\<lambda>sel_elt.
                    seq (observe (\<lambda>p. is_displayed env p sel_elt)) (\<lambda>sel_shown.
                      if sel_shown then interact env (Click sel_elt) else ret ()))
                  else ret ())))
              else ret ()))
           (ret ())
       else ret ())"

text \<open>
  \<^verbatim>\<open>
  def fill_input_text(self, fname, field, value):
      field.clear()
      field.send_keys(value)
  \<close>
\<close>

definition fill_input_text :: "'p env \<Rightarrow> string \<Rightarrow> elt \<Rightarrow> fval \<Rightarrow> ('p, unit) act" where
  "fill_input_text env fname field v =
     seq (interact env (Clear field)) (\<lambda>_. interact env (SendKeys field v))"

text \<open>
  \<^verbatim>\<open>
  def fill_input_file(self, fname, field, value):
      field.clear()
      # verify file exists
      fpath = os.path.abspath(value)
      if not os.path.exists(fpath):
          raise ValueError("%s does not exists, can't feed it as an upload value" % value)
      if not os.path.isfile(fpath):
          raise ValueError("%s is not a file, can't feed it as an upload value" % value)
      # ok
      field.send_keys(fpath)
  \<close>
  \<^verbatim>\<open>os.path.abspath\<close> takes a text (a path) and raises \<^verbatim>\<open>TypeError\<close> on
  \<^verbatim>\<open>None\<close> or a wrapper.
\<close>

definition fill_input_file :: "'p env \<Rightarrow> string \<Rightarrow> elt \<Rightarrow> fval \<Rightarrow> ('p, unit) act" where
  "fill_input_file env fname field v =
     seq (interact env (Clear field)) (\<lambda>_.
       case v of
         VStr s \<Rightarrow>
           (let fpath = abspath env s in
            if \<not> path_exists env fpath then
              raise (ValueError (s @ '' does not exists, can'' @ [sq] @ ''t feed it as an upload value''))
            else if \<not> path_isfile env fpath then
              raise (ValueError (s @ '' is not a file, can'' @ [sq] @ ''t feed it as an upload value''))
            else interact env (SendKeys field (VStr fpath)))
       | _ \<Rightarrow> raise TypeError)"

text \<open>
  \<^verbatim>\<open>
  def fill_input_radio(self, fname, field, value):
      fvalue = field.get_attribute(value)
      if str(fvalue) == str(value):
          field.click()  # select it
  \<close>
  The attribute that is read is the one \<^emph>\<open>named by\<close> \<^verbatim>\<open>value\<close>.
\<close>

definition fill_input_radio :: "'p env \<Rightarrow> string \<Rightarrow> elt \<Rightarrow> fval \<Rightarrow> ('p, unit) act" where
  "fill_input_radio env fname field v =
     seq (observe (\<lambda>p. get_attribute env p field v)) (\<lambda>fvalue.
       if fval_str env (fval_of_attr fvalue) = fval_str env v
       then interact env (Click field)
       else ret ())"

text \<open>
  \<^verbatim>\<open>
  def fill_input(self, fname, field, value):
      ftype = field.get_attribute("type") or "text"
      filler = getattr(self, "fill_input_" + ftype, self.fill_input_text)
      filler(fname, field, value)
  \<close>
  The attributes of the driver whose name starts with \<^verbatim>\<open>fill_input_\<close> are
  \<^verbatim>\<open>fill_input_text\<close>, \<^verbatim>\<open>fill_input_file\<close> and \<^verbatim>\<open>fill_input_radio\<close>.
\<close>

definition fill_input :: "'p env \<Rightarrow> string \<Rightarrow> elt \<Rightarrow> fval \<Rightarrow> ('p, unit) act" where
  "fill_input env fname field v =
     seq (observe (\<lambda>p. get_attribute env p field (VStr ''type''))) (\<lambda>a.
       let ftype = (case a of None \<Rightarrow> ''text'' | Some t \<Rightarrow> if t = [] then ''text'' else t)
       in if ftype = ''file'' then fill_input_file env fname field v
          else if ftype = ''radio'' then fill_input_radio env fname field v
          else fill_input_text env fname field v)"

text \<open>
  \<^verbatim>\<open>
  def fill_select(self, fname, field, value):
      option = field.by_xpath(".//option[@value='%s']" % value)
      if field.is_displayed():
          # click right option
          option.click()
      else:
          # get option text, note : can't use text, for it is hidden
          text = option.get_attribute("text")
          # find the search box
          selector = self.b.by_id("jform_%s_chzn" % fname)
          # click on its link
          selector.by_tag("a").click()
          # fillin text of option
          selector.by_tag("input").send_keys(text)
          results = selector.by_css(".chzn-results").all_tag("li")
          # assert only one
          assert len(results) == 1, (
              "Found %d results for %s for %s = %s" % (len(results), option.text, fname, value))
          # click it
          results[0].click()
  \<close>
  The message of the assertion is built, and \<^verbatim>\<open>option.text\<close> read, only when the
  assertion fails.
\<close>

definition option_xpath :: "'p env \<Rightarrow> fval \<Rightarrow> string" where
  "option_xpath env v = ''.//option[@value='' @ in_sq (fval_str env v) @ '']''"

definition found_message :: "'p env \<Rightarrow> nat \<Rightarrow> string \<Rightarrow> string \<Rightarrow> fval \<Rightarrow> string" where
  "found_message env n option_text fname v =
     ''Found '' @ str_of_nat n @ '' results for '' @ option_text @ '' for '' @ fname
       @ '' = '' @ fval_str env v"

definition fill_select :: "'p env \<Rightarrow> string \<Rightarrow> elt \<Rightarrow> fval \<Rightarrow> ('p, unit) act" where
  "fill_select env fname field v =
     seq (by_xpath env field (option_xpath env v) nodefault) (\<lambda>option.
     seq (observe (\<lambda>p. is_displayed env p field)) (\<lambda>shown.
       if shown then click env option
       else
         seq (as_wrapper option) (\<lambda>option_elt.
         seq (observe (\<lambda>p. get_attribute env p option_elt (VStr ''text''))) (\<lambda>text.
         seq (by_id env WebDriver (''jform_'' @ fname @ ''_chzn'') nodefault) (\<lambda>selector.
         seq (as_wrapper selector) (\<lambda>selector_elt.
         seq (by_tag env selector_elt ''a'' nodefault) (\<lambda>link.
         seq (click env link) (\<lambda>_.
         seq (by_tag env selector_elt ''input'' nodefault) (\<lambda>box.
         seq (as_wrapper box) (\<lambda>box_elt.
         seq (interact env (SendKeys box_elt (fval_of_attr text))) (\<lambda>_.
         seq (by_css env selector_elt ''.chzn-results'' nodefault) (\<lambda>res.
         seq (as_wrapper res) (\<lambda>res_elt.
         seq (all_tag env res_elt ''li'' nodefault) (\<lambda>results.
           case results of
             Wrappers rs \<Rightarrow>
               if length rs = 1 then interact env (Click (hd rs))
               else seq (observe (\<lambda>p. text_of env p option_elt)) (\<lambda>t.
                      raise (AssertionError (found_message env (length rs) t fname v)))
           | _ \<Rightarrow> raise TypeError))))))))))))))"

text \<open>
  \<^verbatim>\<open>
  def fill_textarea(self, fname, field, value):
      if not field.is_displayed():
          # test if it's a tinymce
          assert "mce_editable" in field.get_attribute("class"), (
              "field not visible and not a tinymce one")
          # click the toggle
          self.b.by_id("wf_editor_jform_%s_toggle" % fname).click()
          # wait for text area visibility
          self.b.wait().until(lambda d: field.is_displayed())
      # clean and fill
      field.clear()
      field.send_keys(value)
  \<close>
\<close>

definition fill_textarea :: "'p env \<Rightarrow> string \<Rightarrow> elt \<Rightarrow> fval \<Rightarrow> ('p, unit) act" where
  "fill_textarea env fname field v =
     seq (observe (\<lambda>p. is_displayed env p field)) (\<lambda>shown.
     seq (if \<not> shown then
            seq (observe (\<lambda>p. get_attribute env p field (VStr ''class''))) (\<lambda>cls.
              case cls of
                None \<Rightarrow> raise TypeError
              | Some c \<Rightarrow>
                  if \<not> contains_str ''mce_editable'' c
                  then raise (AssertionError ''field not visible and not a tinymce one'')
                  else
                    seq (by_id env WebDriver (''wf_editor_jform_'' @ fname @ ''_toggle'') nodefault) (\<lambda>toggle.
                    seq (click env toggle) (\<lambda>_.
                      interact env (WaitDisplayed field))))
          else ret ()) (\<lambda>_.
     seq (interact env (Clear field)) (\<lambda>_.
       interact env (SendKeys field v))))"

text \<open>\<^verbatim>\<open>s.strip()\<close>: the ASCII white space of \<^verbatim>\<open>str.isspace\<close> is taken off both
  ends.\<close>

definition is_space :: "char \<Rightarrow> bool" where
  "is_space c = (c \<in> set [CHR 0x09, CHR 0x0A, CHR 0x0B, CHR 0x0C, CHR 0x0D,
                            CHR 0x1C, CHR 0x1D, CHR 0x1E, CHR 0x1F, CHR 0x20])"

definition strip :: "string \<Rightarrow> string" where
  "strip s = rev (dropWhile is_space (rev (dropWhile is_space s)))"

text \<open>\<^verbatim>\<open>int(s)\<close> for a text: white space around (tab to carriage return, and the
  space), one optional sign, decimal digits with single underscores between them.\<close>

definition int_space :: "char \<Rightarrow> bool" where
  "int_space c = (c \<in> set [CHR 0x09, CHR 0x0A, CHR 0x0B, CHR 0x0C, CHR 0x0D, CHR 0x20])"

definition is_digit :: "char \<Rightarrow> bool" where
  "is_digit c = (c \<in> set ''0123456789'')"

fun digits_ok :: "string \<Rightarrow> bool" where
  "digits_ok [] = False"
| "digits_ok [c] = is_digit c"
| "digits_ok (c # d # r) =
     (is_digit c \<and> (if d = CHR ''_'' then r \<noteq> [] \<and> digits_ok r else digits_ok (d # r)))"

definition digits_value :: "string \<Rightarrow> nat" where
  "digits_value s =
     foldl (\<lambda>acc c. if c = CHR ''_'' then acc else 10 * acc + (of_char c - 48)) 0 s"

definition py_int :: "string \<Rightarrow> exn + int" where
  "py_int s =
     (let t = rev (dropWhile int_space (rev (dropWhile int_space s)));
          (neg, body) = (case t of
                           [] \<Rightarrow> (False, [])
                         | c # r \<Rightarrow> if c = CHR ''-'' then (True, r)
                                    else if c = CHR ''+'' then (False, r) else (False, t))
      in if digits_ok body
         then Inr (if neg then - int (digits_value body) else int (digits_value body))
         else Inl (ValueError (''invalid literal for int() with base 10: '' @ repr_str s)))"

text \<open>
  \<^verbatim>\<open>
  def select_article_in_popup(self, article_id, article_title, fname="jSelectArticle"):
      popup_xpath = "//iframe[contains(@src, 'function=%s')]" % fname
      self.b.wait().until(ec_frame_available((By.XPATH, popup_xpath)))
      time.sleep(1)
      link_xpath = """//a[contains(@onclick, "%s('%s'")][1]""" % (fname, int(article_id))
      try:
          link = self.b.by_xpath(link_xpath)
      except NoSuchElementException:
          search_field = self.b.by_name("filter[search]")
          search_field.clear()
          search_field.send_keys(article_title)
          search_field.by_xpath("./following-sibling::button").click()
          link = self.b.wait().until(ec_presence((By.XPATH, link_xpath)))
      link.click()
      self.b.wait().until_not(ec_presence((By.XPATH, popup_xpath)))
      self.b.switch_to.parent_frame();
      time.sleep(1)
  \<close>
\<close>

definition await_presence :: "'p env \<Rightarrow> string \<Rightarrow> ('p, elt) act" where
  "await_presence env xp w =
     (case until_presence env (page w) xp of
        (r, p') \<Rightarrow> (r, \<lparr>page = p', trace = trace w @ [WaitPresence xp]\<rparr>))"

definition select_article_in_popup :: "'p env \<Rightarrow> int \<Rightarrow> string \<Rightarrow> string \<Rightarrow> ('p, unit) act" where
  "select_article_in_popup env article_id article_title fname =
     (let popup_xpath = ''//iframe[contains(@src, '' @ in_sq (''function='' @ fname) @ '')]'';
          link_xpath = ''//a[contains(@onclick, '' @ [dq] @ fname @ ''(''
                         @ in_sq (str_of_int article_id) @ [dq] @ '')][1]''
      in
      seq (interact env (WaitFrame popup_xpath)) (\<lambda>_.
      seq (interact env (Sleep 1)) (\<lambda>_.
      seq (except_no_such_element
             (by_xpath env WebDriver link_xpath nodefault)
             (seq (by_name env WebDriver ''filter[search]'' nodefault) (\<lambda>search_field.
              seq (as_wrapper search_field) (\<lambda>search_elt.
              seq (interact env (Clear search_elt)) (\<lambda>_.
              seq (interact env (SendKeys search_elt (VStr article_title))) (\<lambda>_.
              seq (by_xpath env search_elt ''./following-sibling::button'' nodefault) (\<lambda>button.
              seq (click env button) (\<lambda>_.
              seq (await_presence env link_xpath) (\<lambda>l. ret (Wrapper l)))))))))) (\<lambda>link.
      seq (click env link) (\<lambda>_.
      seq (interact env (WaitAbsence popup_xpath)) (\<lambda>_.
      seq (interact env ParentFrame) (\<lambda>_.
        interact env (Sleep 1))))))))"

text \<open>
  \<^verbatim>\<open>
  def fill_association(self, fname, value):
      fname, lang_code = re.split((r"\[|\]"), fname)[:2]
      field = self.b.by_name("jform[%s][%s]" % (fname, lang_code.replace("_", "-")))
      self.ensure_field_tab(field)
      # click button akin to field
      button = field.by_xpath("..//a")
      button.click()
      _article_id, _article_title = value.split("-", 1)
      article_id = int(_article_id)
      article_title = _article_title.strip()
      # wait for popup and select
      fname = "jSelectArticle_jform_associations_%s" % lang_code
      self.select_article_in_popup(
          article_id, article_title, fname=fname)
  \<close>
  Unpacking into two names raises \<^verbatim>\<open>ValueError\<close> when there is one piece only.
\<close>

definition fill_association :: "'p env \<Rightarrow> string \<Rightarrow> string \<Rightarrow> ('p, unit) act" where
  "fill_association env fname0 v =
     (case split_on (\<lambda>c. c = CHR ''['' \<or> c = CHR '']'') fname0 of
        fname # lang_code # _ \<Rightarrow>
          seq (by_name env WebDriver
                 (''jform['' @ fname @ ''][''
                    @ replace_char CHR ''_'' CHR ''-'' lang_code @ '']'') nodefault) (\<lambda>field.
          seq (as_wrapper field) (\<lambda>field_elt.
          seq (ensure_field_tab env field_elt) (\<lambda>_.
          seq (by_xpath env field_elt ''..//a'' nodefault) (\<lambda>button.
          seq (click env button) (\<lambda>_.
            case partition_at CHR ''-'' v of
              (a, Some b) \<Rightarrow>
                (case py_int a of
                   Inl e \<Rightarrow> raise e
                 | Inr article_id \<Rightarrow>
                     select_article_in_popup env article_id (strip b)
                       (''jSelectArticle_jform_associations_'' @ lang_code))
            | (a, None) \<Rightarrow>
                raise (ValueError ''not enough values to unpack (expected 2, got 1)''))))))
      | _ \<Rightarrow> raise (ValueError ''not enough values to unpack (expected 2, got 1)''))"

text \<open>
  \<^verbatim>\<open>
  def fill_field(self, name, value, jform=True):
      fname = "jform[%s]" % name if jform else name
      fields = self.b.all_name(fname)  # radio eg have multiple fields
      for field in fields:
          field = fields[0]
          self.ensure_field_tab(field)
          filler = getattr(self, "fill_" + field.tag_name)
          filler(name, field, value)
  \<close>
  The loop runs once per element of \<^verbatim>\<open>fields\<close> (\<open>found_fields\<close> is the list,
  \<open>pending\<close> its elements still to come); it overwrites the loop variable with
  \<^verbatim>\<open>fields[0]\<close> and runs the three statements that follow, \<open>fill_field_body\<close>,
  on it.

  \<^verbatim>\<open>getattr(self, "fill_" + tag)\<close> finds a method of the driver for the tags
  \<^verbatim>\<open>input\<close>, \<^verbatim>\<open>select\<close>, \<^verbatim>\<open>textarea\<close>, for \<^verbatim>\<open>input_text\<close>,
  \<^verbatim>\<open>input_file\<close>, \<^verbatim>\<open>input_radio\<close>, for \<^verbatim>\<open>association\<close> (two parameters:
  the call with three raises \<^verbatim>\<open>TypeError\<close>) and for \<^verbatim>\<open>field\<close>, which is
  \<^verbatim>\<open>fill_field\<close> itself: \<^verbatim>\<open>fill_field(name, field, value)\<close> takes the element as
  the value and \<^verbatim>\<open>value\<close> as \<^verbatim>\<open>jform\<close>.  Python bounds the nesting of calls;
  \<open>depth\<close> is the number of re-entries left before \<^verbatim>\<open>RecursionError\<close>.  Any other
  tag raises \<^verbatim>\<open>AttributeError\<close>.
\<close>

fun fill_field :: "'p env \<Rightarrow> nat \<Rightarrow> string \<Rightarrow> fval \<Rightarrow> bool \<Rightarrow> ('p, unit) act"
and fill_field_loop ::
  "'p env \<Rightarrow> nat \<Rightarrow> string \<Rightarrow> fval \<Rightarrow> elt list \<Rightarrow> elt list \<Rightarrow> ('p, unit) act"
and fill_field_body :: "'p env \<Rightarrow> nat \<Rightarrow> string \<Rightarrow> fval \<Rightarrow> elt \<Rightarrow> ('p, unit) act"
where
  "fill_field env depth name v jform w =
     (case all_name env WebDriver (if jform then ''jform['' @ name @ '']'' else name) nodefault w of
        (Inl e, w') \<Rightarrow> (Inl e, w')
      | (Inr (Wrappers found_fields), w') \<Rightarrow> fill_field_loop env depth name v found_fields found_fields w'
      | (Inr _, w') \<Rightarrow> (Inl TypeError, w'))"
| "fill_field_loop env depth name v found_fields [] w = (Inr (), w)"
| "fill_field_loop env depth name v found_fields (x # pending) w =
     (case found_fields of
        [] \<Rightarrow> (Inl IndexError, w)
      | field # _ \<Rightarrow>
          (case fill_field_body env depth name v field w of
             (Inl e, w') \<Rightarrow> (Inl e, w')
           | (Inr _, w') \<Rightarrow> fill_field_loop env depth name v found_fields pending w'))"
| "fill_field_body env depth name v field w =
     (case ensure_field_tab env field w of
        (Inl e, w1) \<Rightarrow> (Inl e, w1)
      | (Inr _, w1) \<Rightarrow>
          (case tag_name env (page w1) field of
             Inl e \<Rightarrow> (Inl e, w1)
           | Inr tag \<Rightarrow>
               if tag = ''input'' then fill_input env name field v w1
               else if tag = ''input_text'' then fill_input_text env name field v w1
               else if tag = ''input_file'' then fill_input_file env name field v w1
               else if tag = ''input_radio'' then fill_input_radio env name field v w1
               else if tag = ''select'' then fill_select env name field v w1
               else if tag = ''textarea'' then fill_textarea env name field v w1
               else if tag = ''association'' then (Inl TypeError, w1)
               else if tag = ''field'' then
                 (case depth of
                    0 \<Rightarrow> (Inl RecursionError, w1)
                  | Suc d \<Rightarrow> fill_field env d name (VElt field) (fval_truthy v) w1)
               else (Inl (AttributeError (''fill_'' @ tag)), w1)))"

section \<open>\<^verbatim>\<open>JoomlaAdminDriver\<close>: adding an article\<close>

text \<open>
  \<^verbatim>\<open>
  def open_articles(self):
      self.jap.menu_contents.click()
      self.jap.menu_article.click()
  \<close>
\<close>

definition open_articles :: "'p env \<Rightarrow> ('p, unit) act" where
  "open_articles env =
     seq (menu_contents env) (\<lambda>m.
     seq (click env m) (\<lambda>_.
     seq (menu_article env) (\<lambda>a.
       click env a)))"

text \<open>\<^verbatim>\<open>x[0].textContent\<close> for what \<^verbatim>\<open>jform_error\<close> handed back.  The class
  \<^verbatim>\<open>EltWrapper\<close> defines no \<^verbatim>\<open>__getitem__\<close>, and Python looks an index operation
  up on the class, never through \<^verbatim>\<open>__getattr__\<close>: indexing a wrapper raises
  \<^verbatim>\<open>TypeError\<close>.  A list or a text is indexed (\<^verbatim>\<open>IndexError\<close> when empty); the
  attribute is then asked of the item.\<close>

definition first_textContent :: "'p env \<Rightarrow> pyval found \<Rightarrow> ('p, string) act" where
  "first_textContent env x =
     (case x of
        Wrapper e \<Rightarrow> raise TypeError
      | Wrappers es \<Rightarrow>
          (case es of
             [] \<Rightarrow> raise IndexError
           | e # _ \<Rightarrow> observe (\<lambda>p. getattr_elt env p e ''textContent''))
      | Default d \<Rightarrow>
          (case d of
             PList vs \<Rightarrow> if vs = [] then raise IndexError else raise (AttributeError ''textContent'')
           | PStr t \<Rightarrow> if t = [] then raise IndexError else raise (AttributeError ''textContent'')
           | _ \<Rightarrow> raise TypeError))"

text \<open>The loop over \<^verbatim>\<open>fields.items()\<close>, in the order of the dictionary.\<close>

fun fill_fields :: "'p env \<Rightarrow> nat \<Rightarrow> (string \<times> string) list \<Rightarrow> ('p, unit) act" where
  "fill_fields env depth [] = ret ()"
| "fill_fields env depth ((k, v) # rest) =
     seq (if contains_str ''associations'' k then fill_association env k v
          else fill_field env depth k (VStr v) True) (\<lambda>_.
       fill_fields env depth rest)"

text \<open>
  \<^verbatim>\<open>
  def add_article(self, fields):
      self.open_articles()
      # add article button
      self.jap.jform_action('article.add').click()
      # fill fields
      for k, v in fields.items():
          if "associations" in k:
              self.fill_association(k, v)
          else:
              # set according to field type
              self.fill_field(k, v)
      # hit save
      self.jap.jform_action('article.apply').click()
      if self.jap.jform_error:
          raise AdminError(self.jap.jform_error[0].textContent)
      # we hit save so our id is in the url
      parsed_url = urlparse(self.b.current_url)
      params = parse_qs(parsed_url.query)
      article_id = params["id"][0]
      # exit
      self.jap.jform_action("article.cancel").click()
      return article_id
  \<close>
  \<^verbatim>\<open>jform_error\<close> is a property: it is looked up once for the test and once more for
  the message.
\<close>

definition add_article :: "'p env \<Rightarrow> nat \<Rightarrow> (string \<times> string) list \<Rightarrow> ('p, string) act" where
  "add_article env depth article_fields =
     seq (open_articles env) (\<lambda>_.
     seq (jform_action env ''article.add'') (\<lambda>add_button.
     seq (click env add_button) (\<lambda>_.
     seq (fill_fields env depth article_fields) (\<lambda>_.
     seq (jform_action env ''article.apply'') (\<lambda>apply_button.
     seq (click env apply_button) (\<lambda>_.
     seq (jform_error env) (\<lambda>err.
       if truthy err then
         seq (jform_error env) (\<lambda>err_again.
         seq (first_textContent env err_again) (\<lambda>banner_text.
           raise (AdminError banner_text)))
       else
         seq (observe (current_url env)) (\<lambda>url.
           case urlparse url of
             Inl e \<Rightarrow> raise e
           | Inr parsed_url \<Rightarrow>
               (case map_of (parse_qs (query parsed_url)) ''id'' of
                  None \<Rightarrow> raise (KeyError ''id'')
                | Some vs \<Rightarrow>
                    (case vs of
                       [] \<Rightarrow> raise IndexError
                     | article_id # _ \<Rightarrow>
                         seq (jform_action env ''article.cancel'') (\<lambda>cancel_button.
                         seq (click env cancel_button) (\<lambda>_.
                           ret article_id))))))))))))"

section \<open>Small environments to run the definitions on\<close>

text \<open>A page without any element: a find of one element fails with
  \<^verbatim>\<open>NoSuchElementException\<close>, a find of all elements gives the empty list (as
  selenium's \<^verbatim>\<open>find_elements_by_...\<close> do), every interaction succeeds and changes
  nothing, no file exists.\<close>

definition empty_env :: "unit env" where
  "empty_env =
     \<lparr>find_element = (\<lambda>p e b sel. Inl NoSuchElementException),
      find_elements = (\<lambda>p e b sel. Inr []),
      get_attribute = (\<lambda>p e a. Inr None),
      is_displayed = (\<lambda>p e. Inr True),
      tag_name = (\<lambda>p e. Inr ''input''),
      text_of = (\<lambda>p e. Inr []),
      getattr_elt = (\<lambda>p e a. Inl (AttributeError a)),
      current_url = (\<lambda>p. Inr ''http://x/administrator/index.php''),
      perform = (\<lambda>p ev. (Inr (), p)),
      until_presence = (\<lambda>p xp. (Inl TimeoutException, p)),
      abspath = (\<lambda>s. CHR ''/'' # s),
      path_exists = (\<lambda>s. False),
      path_isfile = (\<lambda>s. False),
      wrapper_str = (\<lambda>e. ''<EltWrapper>'')\<rparr>"

definition start :: "unit world" where
  "start = \<lparr>page = (), trace = []\<rparr>"

text \<open>The same page behind a library whose find of all elements raises too when nothing
  matches.\<close>

definition raising_env :: "unit env" where
  "raising_env = empty_env\<lparr>find_elements := (\<lambda>p e b sel. Inl NoSuchElementException)\<rparr>"

text \<open>Running one and the same body \<open>n\<close> times, stopping at its first exception.\<close>

fun repeat_fill :: "nat \<Rightarrow> ('p, unit) act \<Rightarrow> ('p, unit) act" where
  "repeat_fill 0 body w = (Inr (), w)"
| "repeat_fill (Suc n) body w =
     (case body w of
        (Inl e, w') \<Rightarrow> (Inl e, w')
      | (Inr _, w') \<Rightarrow> repeat_fill n body w')"

text \<open>A hidden select behind a chosen widget: the option is found, typing its label
  into the search box leaves two results.\<close>

definition chosen_env :: "unit env" where
  "chosen_env = empty_env
     \<lparr>find_element := (\<lambda>p e b sel.
          if b = ByXPath then Inr (WebElement 1)
          else if b = ById then Inr (WebElement 2)
          else if b = ByTagName \<and> sel = ''a'' then Inr (WebElement 3)
          else if b = ByTagName then Inr (WebElement 4)
          else Inr (WebElement 5)),
      find_elements := (\<lambda>p e b sel. Inr [WebElement 6, WebElement 7]),
      get_attribute := (\<lambda>p e a. Inr (Some ''Dogs'')),
      is_displayed := (\<lambda>p e. Inr False),
      text_of := (\<lambda>p e. Inr [])\<rparr>"

text \<open>A radio button whose \<^verbatim>\<open>value\<close> attribute is \<^verbatim>\<open>1\<close>; it has no attribute
  named \<^verbatim>\<open>1\<close>.\<close>

definition radio_env :: "unit env" where
  "radio_env = empty_env
     \<lparr>get_attribute := (\<lambda>p e a.
          if a = VStr ''value'' then Inr (Some ''1'')
          else if a = VStr ''type'' then Inr (Some ''radio'')
          else Inr None)\<rparr>"

text \<open>An admin page that shows an error banner (\<^verbatim>\<open>.alert-error\<close>, element 9); every
  other landmark is element 0, every named field is the text input 1.\<close>

definition banner_env :: "unit env" where
  "banner_env = empty_env
     \<lparr>find_element := (\<lambda>p e b sel.
          if sel = ''.alert-error'' then Inr (WebElement 9) else Inr (WebElement 0)),
      find_elements := (\<lambda>p e b sel. Inr [WebElement 1])\<rparr>"

text \<open>The admin page after a save that went through: no error banner, the address
  carries the id of the new article.\<close>

definition saved_env :: "unit env" where
  "saved_env = empty_env
     \<lparr>find_element := (\<lambda>p e b sel.
          if sel = ''.alert-error'' then Inl NoSuchElementException else Inr (WebElement 0)),
      find_elements := (\<lambda>p e b sel. Inr [WebElement 1]),
      current_url := (\<lambda>p. Inr ''http://x/administrator/index.php?option=com_content&view=article&layout=edit&id=42'')\<rparr>"

text \<open>Two text inputs share every name.\<close>

definition twin_env :: "unit env" where
  "twin_env = empty_env\<lparr>find_elements := (\<lambda>p e b sel. Inr [WebElement 1, WebElement 2])\<rparr>"

section \<open>Properties\<close>

subsection \<open>Helper facts about lookups\<close>

lemma default_given:
  "fn w = (Inl NoSuchElementException, w) \<Longrightarrow>
   no_such_element_default fn (Some d) w = (Inr (Default d), w)"
  by (simp add: no_such_element_default_def except_no_such_element_def ret_def)


lemma default_unused:
  "fn w = (Inr x, w') \<Longrightarrow> no_such_element_default fn dflt w = (Inr x, w')"
  by (simp add: no_such_element_default_def except_no_such_element_def)


lemma find_all_raises:
  "find_elements env (page w) e b sel = Inl x \<Longrightarrow> find_all env e b sel w = (Inl x, w)"
  by (simp add: find_all_def seq_def observe_def)

lemma find_one_found:
  "find_element env (page w) e b sel = Inr x \<Longrightarrow> find_one env e b sel w = (Inr (Wrapper x), w)"
  by (simp add: find_one_def seq_def observe_def ret_def)

lemma find_all_found:
  "find_elements env (page w) e b sel = Inr xs \<Longrightarrow> find_all env e b sel w = (Inr (Wrappers xs), w)"
  by (simp add: find_all_def seq_def observe_def ret_def)


lemmas lookup_defs = by_tag_def all_tag_def by_name_def all_name_def by_css_def all_css_def
  by_xpath_def all_xpath_def by_id_def

lemma lookup_found:
  "find_element env (page w) e ByTagName sel = Inr x \<Longrightarrow> by_tag env e sel dflt w = (Inr (Wrapper x), w)"
  "find_element env (page w) e ByCssSelector sel = Inr x \<Longrightarrow> by_css env e sel dflt w = (Inr (Wrapper x), w)"
  "find_element env (page w) e ByXPath sel = Inr x \<Longrightarrow> by_xpath env e sel dflt w = (Inr (Wrapper x), w)"
  "find_element env (page w) e ById sel = Inr x \<Longrightarrow> by_id env e sel dflt w = (Inr (Wrapper x), w)"
  "find_element env (page w) e ByName sel = Inr x \<Longrightarrow> by_name env e sel dflt w = (Inr (Wrapper x), w)"
  "find_elements env (page w) e ByTagName sel = Inr xs \<Longrightarrow> all_tag env e sel dflt w = (Inr (Wrappers xs), w)"
  "find_elements env (page w) e ByName sel = Inr xs \<Longrightarrow> all_name env e sel dflt w = (Inr (Wrappers xs), w)"
  "find_elements env (page w) e ByCssSelector sel = Inr xs \<Longrightarrow> all_css env e sel dflt w = (Inr (Wrappers xs), w)"
  "find_elements env (page w) e ByXPath sel = Inr xs \<Longrightarrow> all_xpath env e sel dflt w = (Inr (Wrappers xs), w)"
  unfolding lookup_defs
  by (simp_all add: default_unused find_one_found find_all_found)

subsection \<open>The default of a lookup\<close>

text \<open>
  Claim C1 says that each of the nine lookups, called with a default, returns that default
  when the underlying find matches no element.  For the four plural lookups this fails on
  the code: \<^verbatim>\<open>all_tag\<close>, \<^verbatim>\<open>all_name\<close>, \<^verbatim>\<open>all_css\<close> and \<^verbatim>\<open>all_xpath\<close>
  wrap whatever list the find returns, and a find of all elements that matches nothing
  returns the empty list.  The lookup then returns the empty list, not the default, and
  raises nothing when no default was given.
\<close>

theorem plural_lookup_empty_not_default:
  "find_elements empty_env (page start) WebDriver ByName ''jform[title]'' = Inr []
   \<and> all_name empty_env WebDriver ''jform[title]'' (Some (PStr ''none'')) start
       = (Inr (Wrappers []), start)
   \<and> all_name empty_env WebDriver ''jform[title]'' (Some (PStr ''none'')) start
       \<noteq> (Inr (Default (PStr ''none'')), start)
   \<and> all_name empty_env WebDriver ''jform[title]'' nodefault start
       = (Inr (Wrappers []), start)
   \<and> all_tag empty_env WebDriver ''li'' (Some (PStr ''none'')) start = (Inr (Wrappers []), start)
   \<and> all_css empty_env WebDriver ''li.x'' (Some (PStr ''none'')) start = (Inr (Wrappers []), start)
   \<and> all_xpath empty_env WebDriver ''//li'' (Some (PStr ''none'')) start = (Inr (Wrappers []), start)"
  by (simp add: lookup_found empty_env_def)

text \<open>
  Claim C1, amended.  For the five singular lookups (\<^verbatim>\<open>by_tag\<close>, \<^verbatim>\<open>by_name\<close>,
  \<^verbatim>\<open>by_css\<close>, \<^verbatim>\<open>by_xpath\<close>, \<^verbatim>\<open>by_id\<close>): when the underlying find matches no
  element, that is raises the not-found condition, a supplied default is returned exactly
  and nothing is raised; without a default the not-found error reaches the caller.  For
  the four plural lookups: when the underlying find matches no element and returns the
  empty list, the lookup returns the empty list, with or without a default; the default
  is returned (and, without one, the error propagated) only when the find itself raises
  the not-found condition.  The page and the trace stay as they were.
\<close>

theorem lookup_default_on_no_match:
  "(find_element env (page w) e ByTagName sel = Inl NoSuchElementException \<longrightarrow>
      by_tag env e sel (Some d) w = (Inr (Default d), w)
      \<and> by_tag env e sel None w = (Inl NoSuchElementException, w))
   \<and> (find_element env (page w) e ByName sel = Inl NoSuchElementException \<longrightarrow>
      by_name env e sel (Some d) w = (Inr (Default d), w)
      \<and> by_name env e sel None w = (Inl NoSuchElementException, w))
   \<and> (find_element env (page w) e ByCssSelector sel = Inl NoSuchElementException \<longrightarrow>
      by_css env e sel (Some d) w = (Inr (Default d), w)
      \<and> by_css env e sel None w = (Inl NoSuchElementException, w))
   \<and> (find_element env (page w) e ByXPath sel = Inl NoSuchElementException \<longrightarrow>
      by_xpath env e sel (Some d) w = (Inr (Default d), w)
      \<and> by_xpath env e sel None w = (Inl NoSuchElementException, w))
   \<and> (find_element env (page w) e ById sel = Inl NoSuchElementException \<longrightarrow>
      by_id env e sel (Some d) w = (Inr (Default d), w)
      \<and> by_id env e sel None w = (Inl NoSuchElementException, w))
   \<and> (find_elements env (page w) e ByTagName sel = Inr [] \<longrightarrow>
      all_tag env e sel (Some d) w = (Inr (Wrappers []), w)
      \<and> all_tag env e sel None w = (Inr (Wrappers []), w))
   \<and> (find_elements env (page w) e ByName sel = Inr [] \<longrightarrow>
      all_name env e sel (Some d) w = (Inr (Wrappers []), w)
      \<and> all_name env e sel None w = (Inr (Wrappers []), w))
   \<and> (find_elements env (page w) e ByCssSelector sel = Inr [] \<longrightarrow>
      all_css env e sel (Some d) w = (Inr (Wrappers []), w)
      \<and> all_css env e sel None w = (Inr (Wrappers []), w))
   \<and> (find_elements env (page w) e ByXPath sel = Inr [] \<longrightarrow>
      all_xpath env e sel (Some d) w = (Inr (Wrappers []), w)
      \<and> all_xpath env e sel None w = (Inr (Wrappers []), w))
   \<and> (find_elements env (page w) e ByTagName sel = Inl NoSuchElementException \<longrightarrow>
      all_tag env e sel (Some d) w = (Inr (Default d), w)
      \<and> all_tag env e sel None w = (Inl NoSuchElementException, w))
   \<and> (find_elements env (page w) e ByName sel = Inl NoSuchElementException \<longrightarrow>
      all_name env e sel (Some d) w = (Inr (Default d), w)
      \<and> all_name env e sel None w = (Inl NoSuchElementException, w))
   \<and> (find_elements env (page w) e ByCssSelector sel = Inl NoSuchElementException \<longrightarrow>
      all_css env e sel (Some d) w = (Inr (Default d), w)
      \<and> all_css env e sel None w = (Inl NoSuchElementException, w))
   \<and> (find_elements env (page w) e ByXPath sel = Inl NoSuchElementException \<longrightarrow>
      all_xpath env e sel (Some d) w = (Inr (Default d), w)
      \<and> all_xpath env e sel None w = (Inl NoSuchElementException, w))"
  unfolding lookup_defs
  by (simp add: no_such_element_default_def except_no_such_element_def find_one_def find_all_def
        seq_def observe_def ret_def raise_def)

text \<open>On the page without elements: the singular lookups give the default they were
  handed (here the empty list of \<^verbatim>\<open>jform_error\<close>) or raise without one, the plural
  lookups give the empty list.  Behind a library whose plural find raises, the plural
  lookups give the default or raise as well.\<close>

theorem lookup_default_on_no_match_witness:
  "by_tag empty_env WebDriver ''.alert-error'' (Some (PList [])) start = (Inr (Default (PList [])), start)
   \<and> by_name empty_env WebDriver ''.alert-error'' (Some (PList [])) start = (Inr (Default (PList [])), start)
   \<and> by_css empty_env WebDriver ''.alert-error'' (Some (PList [])) start = (Inr (Default (PList [])), start)
   \<and> by_xpath empty_env WebDriver ''.alert-error'' (Some (PList [])) start = (Inr (Default (PList [])), start)
   \<and> by_id empty_env WebDriver ''.alert-error'' (Some (PList [])) start = (Inr (Default (PList [])), start)
   \<and> by_css empty_env WebDriver ''.alert-error'' nodefault start = (Inl NoSuchElementException, start)
   \<and> all_tag empty_env WebDriver ''.alert-error'' (Some (PList [])) start = (Inr (Wrappers []), start)
   \<and> all_name empty_env WebDriver ''.alert-error'' (Some (PList [])) start = (Inr (Wrappers []), start)
   \<and> all_css empty_env WebDriver ''.alert-error'' (Some (PList [])) start = (Inr (Wrappers []), start)
   \<and> all_xpath empty_env WebDriver ''.alert-error'' (Some (PList [])) start = (Inr (Wrappers []), start)
   \<and> all_name empty_env WebDriver ''.alert-error'' nodefault start = (Inr (Wrappers []), start)
   \<and> all_tag raising_env WebDriver ''.alert-error'' (Some (PList [])) start = (Inr (Default (PList [])), start)
   \<and> all_name raising_env WebDriver ''.alert-error'' (Some (PList [])) start = (Inr (Default (PList [])), start)
   \<and> all_css raising_env WebDriver ''.alert-error'' (Some (PList [])) start = (Inr (Default (PList [])), start)
   \<and> all_xpath raising_env WebDriver ''.alert-error'' (Some (PList [])) start = (Inr (Default (PList [])), start)
   \<and> all_name raising_env WebDriver ''.alert-error'' nodefault start = (Inl NoSuchElementException, start)"
proof -
  have one: "\<And>b. find_element empty_env (page start) WebDriver b ''.alert-error''
                = Inl NoSuchElementException"
    by (simp add: empty_env_def)
  have none: "\<And>b. find_elements empty_env (page start) WebDriver b ''.alert-error'' = Inr []"
    by (simp add: empty_env_def)
  have many: "\<And>b. find_elements raising_env (page start) WebDriver b ''.alert-error''
                = Inl NoSuchElementException"
    by (simp add: raising_env_def)
  have one_too: "\<And>b. find_element raising_env (page start) WebDriver b ''.alert-error''
                = Inl NoSuchElementException"
    by (simp add: raising_env_def empty_env_def)
  note on_empty = lookup_default_on_no_match
    [of empty_env start WebDriver "''.alert-error''" "PList []", unfolded one none, simplified]
  note on_raising = lookup_default_on_no_match
    [of raising_env start WebDriver "''.alert-error''" "PList []", unfolded one_too many, simplified]
  from on_empty on_raising show ?thesis
    by blast
qed

subsection \<open>\<^verbatim>\<open>update_url_params\<close>\<close>

text \<open>
  Claim C2 (idempotence) fails on the code.  A parameter of the URL that the keyword
  arguments do not overwrite is held as the list \<^verbatim>\<open>parse_qs\<close> made, and
  \<^verbatim>\<open>urlencode\<close> (called without \<^verbatim>\<open>doseq\<close>) writes the text of that list:
  \<^verbatim>\<open>a=1\<close> becomes \<^verbatim>\<open>a=['1']\<close> (percent-encoded), and a second application with the
  same arguments wraps it once more.
\<close>

theorem update_url_params_twice_differs:
  "update_url_params ''http://x/y?a=1'' [(''id'', PInt 2)]
     = Inr ''http://x/y?a=%5B%271%27%5D&id=2''
   \<and> update_url_params ''http://x/y?a=%5B%271%27%5D&id=2'' [(''id'', PInt 2)]
     = Inr ''http://x/y?a=%5B%22%5B%271%27%5D%22%5D&id=2''"
  by code_simp

text \<open>
  Claim C3.  \<^verbatim>\<open>update_url_params("http://x/y?id=1", id=2)\<close> is
  \<^verbatim>\<open>http://x/y?id=2\<close>: scheme \<^verbatim>\<open>http\<close>, host \<^verbatim>\<open>x\<close>, path \<^verbatim>\<open>/y\<close>, and a query that
  holds exactly the key \<^verbatim>\<open>id\<close> with the value \<^verbatim>\<open>2\<close>.
\<close>

theorem update_url_params_example:
  "update_url_params ''http://x/y?id=1'' [(''id'', PInt 2)] = Inr ''http://x/y?id=2''
   \<and> urlparse ''http://x/y?id=2'' =
       Inr \<lparr>scheme = ''http'', netloc = ''x'', path = ''/y'', params = [],
            query = ''id=2'', fragment = []\<rparr>
   \<and> parse_qs ''id=2'' = [(''id'', [''2''])]"
  by code_simp

text \<open>
  Claim C4 (other parameters keep their values) fails on the code, by the defect seen at
  C2: the untouched parameter \<^verbatim>\<open>keep=1\<close> comes back with the value \<^verbatim>\<open>['1']\<close>.  Scheme,
  host, path and fragment are kept.
\<close>

theorem update_url_params_mangles_other_parameter:
  "parse_qs ''keep=1'' = [(''keep'', [''1''])]
   \<and> update_url_params ''http://x/y?keep=1#top'' [(''id'', PInt 2)]
     = Inr ''http://x/y?keep=%5B%271%27%5D&id=2#top''
   \<and> parse_qs ''keep=%5B%271%27%5D&id=2''
     = [(''keep'', [''['' @ in_sq ''1'' @ '']'']), (''id'', [''2''])]"
  by code_simp

subsection \<open>\<^verbatim>\<open>add_article\<close> and the error banner\<close>

text \<open>
  Claim C5 (an error banner after the save click makes \<^verbatim>\<open>add_article\<close> raise
  \<^verbatim>\<open>AdminError\<close> with the banner's text) fails on the code.  With a banner on the page,
  \<^verbatim>\<open>jform_error\<close> is one element wrapper, not a list: the test
  \<^verbatim>\<open>if self.jap.jform_error\<close> is true and \<^verbatim>\<open>self.jap.jform_error[0]\<close> raises
  \<^verbatim>\<open>TypeError\<close>.  No article id is returned.
\<close>

theorem add_article_banner_type_error:
  "add_article banner_env 0 [(''title'', ''Hello'')] start =
     (Inl TypeError,
      \<lparr>page = (),
       trace = [Click (WebElement 0), Click (WebElement 0), Click (WebElement 0),
                Clear (WebElement 1), SendKeys (WebElement 1) (VStr ''Hello''),
                Click (WebElement 0)]\<rparr>)"
  by code_simp

text \<open>Without a banner the id is read from the address and returned, after the click on
  the cancel button.\<close>

lemma add_article_returns_id:
  "add_article saved_env 0 [(''title'', ''Hello'')] start =
     (Inr ''42'',
      \<lparr>page = (),
       trace = [Click (WebElement 0), Click (WebElement 0), Click (WebElement 0),
                Clear (WebElement 1), SendKeys (WebElement 1) (VStr ''Hello''),
                Click (WebElement 0), Click (WebElement 0)]\<rparr>)"
  by code_simp

subsection \<open>\<^verbatim>\<open>fill_input_file\<close>\<close>

text \<open>
  Claim C6 says that a path that is no existing regular file raises \<^verbatim>\<open>ValueError\<close>
  before any interaction with the field.  The code clears the field first: on the page
  without files the trace holds the clear when the error is raised.
\<close>

theorem fill_input_file_clears_first:
  "fill_input_file empty_env ''upload'' (WebElement 0) (VStr ''missing.txt'') start =
     (Inl (ValueError (''missing.txt does not exists, can'' @ [sq] @ ''t feed it as an upload value'')),
      \<lparr>page = (), trace = [Clear (WebElement 0)]\<rparr>)"
  by (simp add: fill_input_file_def empty_env_def start_def seq_def interact_def raise_def)

text \<open>
  Claim C6, amended.  When the value is a text whose absolute path does not exist or is
  no regular file, the only interaction of \<^verbatim>\<open>fill_input_file\<close> with the field is the
  clear, nothing is typed, and the outcome is \<^verbatim>\<open>ValueError\<close> with the code's message
  (or the exception of the clear, when the clear itself fails).
\<close>

theorem fill_input_file_invalid_path:
  assumes bad: "\<not> (path_exists env (abspath env s) \<and> path_isfile env (abspath env s))"
  shows "trace (snd (fill_input_file env fname field (VStr s) w)) = trace w @ [Clear field]
       \<and> fst (fill_input_file env fname field (VStr s) w) =
           (case fst (perform env (page w) (Clear field)) of
              Inl e \<Rightarrow> Inl e
            | Inr u \<Rightarrow> Inl (ValueError (s @
                (if \<not> path_exists env (abspath env s)
                 then '' does not exists, can'' @ [sq] @ ''t feed it as an upload value''
                 else '' is not a file, can'' @ [sq] @ ''t feed it as an upload value''))))"
  using bad
  by (cases "perform env (page w) (Clear field)"; cases "fst (perform env (page w) (Clear field))")
     (auto simp: fill_input_file_def seq_def interact_def raise_def Let_def)

theorem fill_input_file_invalid_path_witness:
  "\<not> (path_exists empty_env (abspath empty_env ''report.pdf'')
        \<and> path_isfile empty_env (abspath empty_env ''report.pdf''))
   \<and> trace (snd (fill_input_file empty_env ''upload'' (WebElement 3) (VStr ''report.pdf'') start))
       = [Clear (WebElement 3)]
   \<and> fst (fill_input_file empty_env ''upload'' (WebElement 3) (VStr ''report.pdf'') start)
       = Inl (ValueError (''report.pdf does not exists, can'' @ [sq] @ ''t feed it as an upload value''))"
proof -
  have bad: "\<not> (path_exists empty_env (abspath empty_env ''report.pdf'')
                  \<and> path_isfile empty_env (abspath empty_env ''report.pdf''))"
    by (simp add: empty_env_def)
  have ok: "fst (perform empty_env p (Clear (WebElement 3))) = Inr ()" for p
    by (simp add: empty_env_def)
  have missing: "\<not> path_exists empty_env (abspath empty_env ''report.pdf'')"
    by (simp add: empty_env_def)
  from fill_input_file_invalid_path [OF bad, of "''upload''" "WebElement 3" start]
  have "trace (snd (fill_input_file empty_env ''upload'' (WebElement 3) (VStr ''report.pdf'') start))
          = [Clear (WebElement 3)]"
   and "fst (fill_input_file empty_env ''upload'' (WebElement 3) (VStr ''report.pdf'') start)
          = Inl (ValueError (''report.pdf does not exists, can'' @ [sq] @ ''t feed it as an upload value''))"
    by (simp_all add: ok missing start_def)
  with bad show ?thesis
    by blast
qed

subsection \<open>\<^verbatim>\<open>fill_select\<close>\<close>



text \<open>
  Claim C8.  A select that is not displayed is filled through its chosen widget: the
  widget's link is clicked and the option's label typed into its search box.  When the
  list of results then has exactly one item, that item is clicked.  Otherwise no result
  is clicked and the call fails with an assertion error whose message names the number
  of results, the option's text, the field and the value (reading the option's text for
  the message may itself fail; then that exception is the outcome).
\<close>

theorem fill_select_chosen_results:
  assumes opt: "find_element env (page w) field ByXPath (option_xpath env v) = Inr option"
      and hidden: "is_displayed env (page w) field = Inr False"
      and label: "get_attribute env (page w) option (VStr ''text'') = Inr text"
      and sel: "find_element env (page w) WebDriver ById (''jform_'' @ fname @ ''_chzn'') = Inr selector"
      and link: "find_element env (page w) selector ByTagName ''a'' = Inr link"
      and clicked: "perform env (page w) (Click link) = (Inr (), p1)"
      and box: "find_element env p1 selector ByTagName ''input'' = Inr box"
      and typed: "perform env p1 (SendKeys box (fval_of_attr text)) = (Inr (), p2)"
      and res: "find_element env p2 selector ByCssSelector ''.chzn-results'' = Inr res"
      and lis: "find_elements env p2 res ByTagName ''li'' = Inr rs"
  shows "fill_select env fname field v w =
     (if length rs = 1
      then (fst (perform env p2 (Click (hd rs))),
            \<lparr>page = snd (perform env p2 (Click (hd rs))),
             trace = trace w @ [Click link, SendKeys box (fval_of_attr text), Click (hd rs)]\<rparr>)
      else ((case text_of env p2 option of
               Inl e \<Rightarrow> Inl e
             | Inr t \<Rightarrow> Inl (AssertionError (found_message env (length rs) t fname v))),
            \<lparr>page = p2, trace = trace w @ [Click link, SendKeys box (fval_of_attr text)]\<rparr>))"
proof -
  let ?w1 = "\<lparr>page = p1, trace = trace w @ [Click link]\<rparr>"
  let ?w2 = "\<lparr>page = p2, trace = trace w @ [Click link, SendKeys box (fval_of_attr text)]\<rparr>"
  have s1: "by_xpath env field (option_xpath env v) nodefault w = (Inr (Wrapper option), w)"
    by (rule lookup_found) (rule opt)
  have s2: "by_id env WebDriver (''jform_'' @ fname @ ''_chzn'') nodefault w = (Inr (Wrapper selector), w)"
    by (rule lookup_found) (rule sel)
  have s3: "by_tag env selector ''a'' nodefault w = (Inr (Wrapper link), w)"
    by (rule lookup_found) (rule link)
  have s5: "by_tag env selector ''input'' nodefault ?w1 = (Inr (Wrapper box), ?w1)"
    by (rule lookup_found) (simp add: box)
  have s7: "by_css env selector ''.chzn-results'' nodefault ?w2 = (Inr (Wrapper res), ?w2)"
    by (rule lookup_found) (simp add: res)
  have s8: "all_tag env res ''li'' nodefault ?w2 = (Inr (Wrappers rs), ?w2)"
    by (rule lookup_found) (simp add: lis)
  show ?thesis
    unfolding fill_select_def
    by (simp add: seq_def s1 s2 [simplified] s3 s5 s7 s8 clicked typed
        observe_def hidden label as_wrapper_def ret_def raise_def interact_def click_def
        case_prod_beta split: sum.splits)
qed

text \<open>Typing \<^verbatim>\<open>Dogs\<close> leaves two results: nothing more is clicked, the assertion
  fails.\<close>

theorem fill_select_chosen_results_witness:
  "fill_select chosen_env ''catid'' (WebElement 0) (VStr ''8'') start =
     (Inl (AssertionError ''Found 2 results for  for catid = 8''),
      \<lparr>page = (), trace = [Click (WebElement 3), SendKeys (WebElement 4) (VStr ''Dogs'')]\<rparr>)"
proof -
  have h1: "find_element chosen_env (page start) (WebElement 0) ByXPath
              (option_xpath chosen_env (VStr ''8'')) = Inr (WebElement 1)"
    by (simp add: chosen_env_def)
  have h2: "is_displayed chosen_env (page start) (WebElement 0) = Inr False"
    by (simp add: chosen_env_def)
  have h3: "get_attribute chosen_env (page start) (WebElement 1) (VStr ''text'') = Inr (Some ''Dogs'')"
    by (simp add: chosen_env_def)
  have h4: "find_element chosen_env (page start) WebDriver ById (''jform_'' @ ''catid'' @ ''_chzn'')
              = Inr (WebElement 2)"
    by (simp add: chosen_env_def)
  have h5: "find_element chosen_env (page start) (WebElement 2) ByTagName ''a'' = Inr (WebElement 3)"
    by (simp add: chosen_env_def)
  have h6: "perform chosen_env (page start) (Click (WebElement 3)) = (Inr (), ())"
    by (simp add: chosen_env_def empty_env_def)
  have h7: "find_element chosen_env () (WebElement 2) ByTagName ''input'' = Inr (WebElement 4)"
    by (simp add: chosen_env_def)
  have h8: "perform chosen_env () (SendKeys (WebElement 4) (fval_of_attr (Some ''Dogs''))) = (Inr (), ())"
    by (simp add: chosen_env_def empty_env_def)
  have h9: "find_element chosen_env () (WebElement 2) ByCssSelector ''.chzn-results'' = Inr (WebElement 5)"
    by (simp add: chosen_env_def)
  have h10: "find_elements chosen_env () (WebElement 5) ByTagName ''li'' = Inr [WebElement 6, WebElement 7]"
    by (simp add: chosen_env_def)
  have t: "text_of chosen_env () (WebElement 1) = Inr []"
    by (simp add: chosen_env_def)
  have m: "found_message chosen_env (length [WebElement 6, WebElement 7]) [] ''catid'' (VStr ''8'')
             = ''Found 2 results for  for catid = 8''"
    by (simp add: found_message_def fval_str_def str_of_nat.simps)
  show ?thesis
    unfolding fill_select_chosen_results [OF h1 h2 h3 h4 h5 h6 h7 h8 h9 h10] t
    by (simp add: m [simplified] start_def fval_of_attr_def)
qed

subsection \<open>\<^verbatim>\<open>fill_input_radio\<close>\<close>

text \<open>
  Claim C9 (the radio button is clicked exactly when its own \<^verbatim>\<open>value\<close> attribute
  equals the requested value) fails on the code, which reads the attribute \<^emph>\<open>named by\<close>
  the requested value.  A radio button with \<^verbatim>\<open>value="1"\<close> is asked for its attribute
  \<^verbatim>\<open>1\<close>, has none, and is not clicked when the value \<^verbatim>\<open>1\<close> is requested.
\<close>

theorem fill_input_radio_matching_not_clicked:
  "get_attribute radio_env (page start) (WebElement 0) (VStr ''value'') = Inr (Some ''1'')
   \<and> fill_input_radio radio_env ''featured'' (WebElement 0) (VStr ''1'') start = (Inr (), start)"
  by (simp add: fill_input_radio_def radio_env_def empty_env_def start_def seq_def observe_def
        ret_def fval_str_def fval_of_attr_def)

subsection \<open>\<^verbatim>\<open>fill_field\<close> and the first element\<close>

lemma fill_field_loop_repeat:
  "fill_field_loop env depth name v (first # others) pending w =
     repeat_fill (length pending) (fill_field_body env depth name v first) w"
proof (induction pending arbitrary: w)
  case Nil
  show ?case by simp
next
  case (Cons x pending)
  show ?case
    by (cases "fill_field_body env depth name v first w")
       (simp add: Cons.IH split: sum.splits del: fill_field_body.simps)
qed

text \<open>
  Claim C10.  When the lookup by name finds the elements \<open>first # others\<close>,
  \<^verbatim>\<open>fill_field\<close> runs its loop body (tab activation and filler dispatch) on \<open>first\<close>,
  once per element found, stopping at the first exception.  The elements after the first
  are never handed to the body: only their number counts.
\<close>

theorem fill_field_first_element_only:
  assumes "all_name env WebDriver (if jform then ''jform['' @ name @ '']'' else name) nodefault w
             = (Inr (Wrappers (first # others)), w')"
  shows "fill_field env depth name v jform w =
           repeat_fill (Suc (length others)) (fill_field_body env depth name v first) w'"
  using assms fill_field_loop_repeat [of env depth name v first others "first # others" w']
  by (simp del: fill_field_body.simps fill_field_loop.simps repeat_fill.simps)

text \<open>Two inputs share the name \<^verbatim>\<open>jform[title]\<close>: the first is cleared and typed into
  twice, the second is never touched.\<close>

theorem fill_field_first_element_only_witness:
  "all_name twin_env WebDriver ''jform[title]'' nodefault start
     = (Inr (Wrappers [WebElement 1, WebElement 2]), start)
   \<and> fill_field twin_env 0 ''title'' (VStr ''Hi'') True start =
       (Inr (), \<lparr>page = (), trace = [Clear (WebElement 1), SendKeys (WebElement 1) (VStr ''Hi''),
                                      Clear (WebElement 1), SendKeys (WebElement 1) (VStr ''Hi'')]\<rparr>)"
proof -
  have a: "all_name twin_env WebDriver (if True then ''jform['' @ ''title'' @ '']'' else ''title'')
             nodefault start
     = (Inr (Wrappers (WebElement 1 # [WebElement 2])), start)"
    by (simp add: lookup_found twin_env_def empty_env_def)
  have b: "repeat_fill (Suc (length [WebElement 2]))
             (fill_field_body twin_env 0 ''title'' (VStr ''Hi'') (WebElement 1)) start
      = (Inr (), \<lparr>page = (), trace = [Clear (WebElement 1), SendKeys (WebElement 1) (VStr ''Hi''),
                                      Clear (WebElement 1), SendKeys (WebElement 1) (VStr ''Hi'')]\<rparr>)"
    by (simp add: twin_env_def empty_env_def start_def ensure_field_tab_def seq_def observe_def ret_def
          fill_input_def fill_input_text_def interact_def)
  from a b fill_field_first_element_only [OF a, of 0 "VStr ''Hi''"] show ?thesis
    by simp
qed

end
